theory Spec2Isabelle
  imports Complex_Main
begin

section \<open>The concrete estimation engine (js/calculators.js)\<close>

text \<open>
  The engine is a library of pure functions on JavaScript numbers. A JavaScript number
  is an IEEE double; here it is a \<^typ>\<open>real\<close>, so \<open>+\<close>, \<open>-\<close>, \<open>*\<close> and \<open>/\<close> are exact:
  rounding and overflow to \<open>Infinity\<close> are outside the model. \<open>Math.PI\<close> is
  \<^term>\<open>pi\<close> and \<open>Math.pow(r, 2)\<close> is \<open>r\<^sup>2\<close>. \<open>Math.ceil\<close> returns an integer-valued
  number; here it returns an \<^typ>\<open>int\<close> that is converted back where the code multiplies it.

  From finite inputs the code produces \<open>NaN\<close> in one place, the ready-mix costs (see
  \<open>calculateReadymixCost\<close>); these costs, and what the comparison computes from them,
  have the type \<open>number\<close> below, a real or \<open>NaN\<close>.

  Every calculator takes one object and destructures it. A property that is absent
  (\<open>undefined\<close>) is \<^term>\<open>None\<close>; a destructuring default \<open>x = d\<close> replaces exactly
  \<open>undefined\<close>.
\<close>

subsection \<open>Numbers that can be NaN\<close>

text \<open>
  Arithmetic with \<open>NaN\<close> gives \<open>NaN\<close>, and every comparison with \<open>NaN\<close> is false.
  The divisors in the code are non-zero literals.
\<close>

datatype number = NaN | Val real

instantiation number :: "{plus, minus, times, inverse, ord}"
begin

definition plus_number :: "number \<Rightarrow> number \<Rightarrow> number" where
  "plus_number a b = (case (a, b) of (Val x, Val y) \<Rightarrow> Val (x + y) | _ \<Rightarrow> NaN)"

definition minus_number :: "number \<Rightarrow> number \<Rightarrow> number" where
  "minus_number a b = (case (a, b) of (Val x, Val y) \<Rightarrow> Val (x - y) | _ \<Rightarrow> NaN)"

definition times_number :: "number \<Rightarrow> number \<Rightarrow> number" where
  "times_number a b = (case (a, b) of (Val x, Val y) \<Rightarrow> Val (x * y) | _ \<Rightarrow> NaN)"

definition divide_number :: "number \<Rightarrow> number \<Rightarrow> number" where
  "divide_number a b = (case (a, b) of (Val x, Val y) \<Rightarrow> Val (x / y) | _ \<Rightarrow> NaN)"

definition inverse_number :: "number \<Rightarrow> number" where
  "inverse_number a = (case a of Val x \<Rightarrow> Val (inverse x) | NaN \<Rightarrow> NaN)"

definition less_number :: "number \<Rightarrow> number \<Rightarrow> bool" where
  "less_number a b = (case (a, b) of (Val x, Val y) \<Rightarrow> x < y | _ \<Rightarrow> False)"

definition less_eq_number :: "number \<Rightarrow> number \<Rightarrow> bool" where
  "less_eq_number a b = (case (a, b) of (Val x, Val y) \<Rightarrow> x \<le> y | _ \<Rightarrow> False)"

instance ..

end

text \<open>\<open>ToNumber\<close>: an \<open>undefined\<close> operand of an arithmetic operator becomes \<open>NaN\<close>.\<close>

definition ToNumber :: "real option \<Rightarrow> number" where
  "ToNumber x = (case x of None \<Rightarrow> NaN | Some v \<Rightarrow> Val v)"

subsection \<open>Property access on an object literal\<close>

text \<open>
  An object literal has its own properties and inherits those of \<open>Object.prototype\<close>.
  \<open>obj[key]\<close> finds an own property first and an inherited one otherwise; only a key
  that is neither gives \<open>undefined\<close>. The inherited members are functions (and, for
  \<open>__proto__\<close>, the prototype object): they are truthy and have no \<open>min\<close> or \<open>max\<close>.
\<close>

definition Object_prototype :: "string list" where
  "Object_prototype =
     [''constructor'', ''hasOwnProperty'', ''isPrototypeOf'', ''propertyIsEnumerable'',
      ''toLocaleString'', ''toString'', ''valueOf'', ''__proto__'',
      ''__defineGetter__'', ''__defineSetter__'', ''__lookupGetter__'', ''__lookupSetter__'']"

datatype 'a member = Own 'a | Inherited

definition property :: "(string \<times> 'a) list \<Rightarrow> string \<Rightarrow> 'a member option" where
  "property obj key =
     (case map_of obj key of
        Some v \<Rightarrow> Some (Own v)
      | None \<Rightarrow> if key \<in> set Object_prototype then Some Inherited else None)"

subsection \<open>CONSTANTS\<close>

record 'a range =
  min' :: 'a
  max' :: 'a

record pricing = "real range" +
  label :: string

definition BAGS_PER_CUBIC_METRE :: real where
  "BAGS_PER_CUBIC_METRE = 108"

definition DEFAULT_WASTAGE :: real where
  "DEFAULT_WASTAGE = 10"

definition BAG_PRICE_MIN :: real where
  "BAG_PRICE_MIN = 8.50"

definition BAG_PRICE_MAX :: real where
  "BAG_PRICE_MAX = 12.50"

definition BAG_PRICE_DEFAULT :: real where
  "BAG_PRICE_DEFAULT = 10.00"

text \<open>
  \<open>READYMIX_PRICES\<close> is an object literal: the list of its eight own properties. The
  code reads it with \<open>READYMIX_PRICES[state]\<close>, which is \<^term>\<open>property\<close>.
\<close>

definition READYMIX_PRICES :: "(string \<times> pricing) list" where
  "READYMIX_PRICES =
     [(''nsw'', \<lparr>min' = 250, max' = 380, label = ''NSW''\<rparr>),
      (''vic'', \<lparr>min' = 240, max' = 360, label = ''Victoria''\<rparr>),
      (''qld'', \<lparr>min' = 230, max' = 350, label = ''Queensland''\<rparr>),
      (''wa'', \<lparr>min' = 260, max' = 400, label = ''Western Australia''\<rparr>),
      (''sa'', \<lparr>min' = 240, max' = 370, label = ''South Australia''\<rparr>),
      (''tas'', \<lparr>min' = 280, max' = 420, label = ''Tasmania''\<rparr>),
      (''nt'', \<lparr>min' = 300, max' = 450, label = ''Northern Territory''\<rparr>),
      (''act'', \<lparr>min' = 250, max' = 380, label = ''ACT''\<rparr>)]"

definition READYMIX_PRICE_MIN :: real where
  "READYMIX_PRICE_MIN = 200"

definition READYMIX_PRICE_MAX :: real where
  "READYMIX_PRICE_MAX = 420"

definition READYMIX_MINIMUM_ORDER :: real where
  "READYMIX_MINIMUM_ORDER = 0.5"

definition PI :: real where
  "PI = pi"

subsection \<open>Utility functions\<close>

text \<open>A destructuring or parameter default: \<open>x = d\<close>.\<close>

definition default_to :: "'a option \<Rightarrow> 'a \<Rightarrow> 'a" where
  "default_to x d = (case x of None \<Rightarrow> d | Some v \<Rightarrow> v)"

definition mmToMetres :: "real \<Rightarrow> real" where
  "mmToMetres mm = mm / 1000"

definition metresToMm :: "real \<Rightarrow> real" where
  "metresToMm m = m * 1000"

definition applyWastage :: "real \<Rightarrow> real \<Rightarrow> real" where
  "applyWastage volume wastagePercent = volume * (1 + wastagePercent / 100)"

definition calculateBags :: "real \<Rightarrow> int" where
  "calculateBags volume = \<lceil>volume * BAGS_PER_CUBIC_METRE\<rceil>"

definition calculateBagCost :: "int \<Rightarrow> real option \<Rightarrow> real option \<Rightarrow> real range" where
  "calculateBagCost bags priceMin priceMax =
     \<lparr>min' = of_int bags * default_to priceMin BAG_PRICE_MIN,
      max' = of_int bags * default_to priceMax BAG_PRICE_MAX\<rparr>"

record readymix_cost = "number range" +
  volume' :: real
  hasMinimumApplied :: bool

text \<open>
  \<open>state && READYMIX_PRICES[state] ? READYMIX_PRICES[state] : {min: ..., max: ...}\<close>:
  \<open>null\<close> (\<^term>\<open>None\<close>) and the empty string are falsy, and so is the lookup of a key
  that is neither an own nor an inherited property. An inherited member is truthy, so it
  is taken as \<open>pricing\<close>; its \<open>min\<close> and \<open>max\<close> are \<open>undefined\<close> (\<^term>\<open>None\<close>), and
  \<open>orderVolume * undefined\<close> is \<open>NaN\<close>.
\<close>

definition calculateReadymixCost :: "real \<Rightarrow> string option \<Rightarrow> readymix_cost" where
  "calculateReadymixCost volume state =
     (let pricing =
            (case state of
               None \<Rightarrow> \<lparr>min' = Some READYMIX_PRICE_MIN, max' = Some READYMIX_PRICE_MAX\<rparr>
             | Some s \<Rightarrow>
                 (if s = [] then \<lparr>min' = Some READYMIX_PRICE_MIN, max' = Some READYMIX_PRICE_MAX\<rparr>
                  else (case property READYMIX_PRICES s of
                          Some (Own p) \<Rightarrow> \<lparr>min' = Some (min' p), max' = Some (max' p)\<rparr>
                        | Some Inherited \<Rightarrow> \<lparr>min' = None, max' = None\<rparr>
                        | None \<Rightarrow>
                            \<lparr>min' = Some READYMIX_PRICE_MIN, max' = Some READYMIX_PRICE_MAX\<rparr>)));
          orderVolume = max volume READYMIX_MINIMUM_ORDER
      in \<lparr>min' = Val orderVolume * ToNumber (min' pricing),
          max' = Val orderVolume * ToNumber (max' pricing),
          volume' = orderVolume,
          hasMinimumApplied = (volume < READYMIX_MINIMUM_ORDER)\<rparr>)"

subsection \<open>Calculator results\<close>

text \<open>
  A calculator returns \<open>{valid: false, error}\<close> or \<open>{valid: true, inputs, results, formula}\<close>.
  \<^term>\<open>Valid\<close> carries the \<open>results\<close> object. The \<open>inputs\<close> echo and the \<open>formula\<close> trace
  (display strings built with \<open>Number.toFixed\<close>) take no part in the computation and are
  left out.
\<close>

datatype 'a outcome = Invalid (error: string) | valid: Valid (results: 'a)

record results =
  baseVolume :: real
  totalVolume :: real
  bags :: int
  bagCost :: "real range"
  readymixCost :: readymix_cost

subsection \<open>calculateRectangularSlab\<close>

record slab_params =
  length_slab :: "real option"
  width_slab :: "real option"
  depth_slab :: "real option"
  wastage_slab :: "real option"

text \<open>
  \<open>!x\<close> holds for \<open>undefined\<close> and for \<open>0\<close>; \<open>undefined <= 0\<close> is false. So the
  validation rejects an absent dimension through \<open>!x\<close>, and a present one when it is
  \<open>0\<close> or \<open>x <= 0\<close>.
\<close>

definition calculateRectangularSlab :: "slab_params \<Rightarrow> results outcome" where
  "calculateRectangularSlab params =
     (let wastage = default_to (wastage_slab params) DEFAULT_WASTAGE in
      case (length_slab params, width_slab params, depth_slab params) of
        (Some length', Some width, Some depth) \<Rightarrow>
          if length' = 0 \<or> width = 0 \<or> depth = 0 \<or> length' \<le> 0 \<or> width \<le> 0 \<or> depth \<le> 0
          then Invalid ''Please enter valid positive dimensions''
          else
            let baseVolume = length' * width * depth;
                totalVolume = applyWastage baseVolume wastage;
                bags = calculateBags totalVolume;
                bagCost = calculateBagCost bags None None;
                readymixCost = calculateReadymixCost totalVolume None
            in Valid \<lparr>baseVolume = baseVolume, totalVolume = totalVolume, bags = bags,
                       bagCost = bagCost, readymixCost = readymixCost\<rparr>
      | _ \<Rightarrow> Invalid ''Please enter valid positive dimensions'')"

subsection \<open>calculatePostHole\<close>

record post_hole_params =
  holeDiameter_post :: "real option"
  holeDepth_post :: "real option"
  postWidth_post :: "real option"
  postCount_post :: "real option"
  postShape_post :: "string option"
  wastage_post :: "real option"

record post_hole_results = results +
  holeVolume :: real
  postVolume :: real
  concretePerHole :: real

definition calculatePostHole :: "post_hole_params \<Rightarrow> post_hole_results outcome" where
  "calculatePostHole params =
     (let postWidth = default_to (postWidth_post params) 0;
          postCount = default_to (postCount_post params) 1;
          postShape = default_to (postShape_post params) ''square'';
          wastage = default_to (wastage_post params) DEFAULT_WASTAGE in
      case (holeDiameter_post params, holeDepth_post params) of
        (Some holeDiameter, Some holeDepth) \<Rightarrow>
          if holeDiameter = 0 \<or> holeDepth = 0 \<or> holeDiameter \<le> 0 \<or> holeDepth \<le> 0 \<or> postCount < 1
          then Invalid ''Please enter valid positive dimensions''
          else
            let holeRadius = holeDiameter / 2;
                holeVolume = PI * holeRadius\<^sup>2 * holeDepth;
                postVolume =
                  (if postWidth > 0 then
                     (if postShape = ''round'' then
                        (let postRadius = postWidth / 2 in PI * postRadius\<^sup>2 * holeDepth)
                      else postWidth * postWidth * holeDepth)
                   else 0);
                concretePerHole = holeVolume - postVolume;
                baseVolume = concretePerHole * postCount;
                totalVolume = applyWastage baseVolume wastage;
                bags = calculateBags totalVolume;
                bagCost = calculateBagCost bags None None;
                readymixCost = calculateReadymixCost totalVolume None
            in Valid \<lparr>baseVolume = baseVolume, totalVolume = totalVolume, bags = bags,
                       bagCost = bagCost, readymixCost = readymixCost,
                       holeVolume = holeVolume, postVolume = postVolume,
                       concretePerHole = concretePerHole\<rparr>
      | _ \<Rightarrow> Invalid ''Please enter valid positive dimensions'')"

subsection \<open>calculateFooting\<close>

record footing_params =
  length_footing :: "real option"
  width_footing :: "real option"
  depth_footing :: "real option"
  footingCount_footing :: "real option"
  wastage_footing :: "real option"

record footing_results = results +
  volumePerFooting :: real

definition calculateFooting :: "footing_params \<Rightarrow> footing_results outcome" where
  "calculateFooting params =
     (let footingCount = default_to (footingCount_footing params) 1;
          wastage = default_to (wastage_footing params) DEFAULT_WASTAGE in
      case (length_footing params, width_footing params, depth_footing params) of
        (Some length', Some width, Some depth) \<Rightarrow>
          if length' = 0 \<or> width = 0 \<or> depth = 0 \<or> length' \<le> 0 \<or> width \<le> 0 \<or> depth \<le> 0
             \<or> footingCount < 1
          then Invalid ''Please enter valid positive dimensions''
          else
            let volumePerFooting = length' * width * depth;
                baseVolume = volumePerFooting * footingCount;
                totalVolume = applyWastage baseVolume wastage;
                bags = calculateBags totalVolume;
                bagCost = calculateBagCost bags None None;
                readymixCost = calculateReadymixCost totalVolume None
            in Valid \<lparr>baseVolume = baseVolume, totalVolume = totalVolume, bags = bags,
                       bagCost = bagCost, readymixCost = readymixCost,
                       volumePerFooting = volumePerFooting\<rparr>
      | _ \<Rightarrow> Invalid ''Please enter valid positive dimensions'')"

subsection \<open>calculateColumn\<close>

record column_params =
  shape_column :: "string option"
  diameter_column :: "real option"
  width_column :: "real option"
  depth_column :: "real option"
  height_column :: "real option"
  columnCount_column :: "real option"
  wastage_column :: "real option"

record column_results = results +
  volumePerColumn :: real

text \<open>
  The tail of \<open>calculateColumn\<close> after \<open>volumePerColumn\<close> is known; both shapes share it.
\<close>

definition column_totals :: "real \<Rightarrow> real \<Rightarrow> real \<Rightarrow> column_results outcome" where
  "column_totals volumePerColumn' columnCount wastage =
     (let volumePerColumn = volumePerColumn';
          baseVolume = volumePerColumn * columnCount;
          totalVolume = applyWastage baseVolume wastage;
          bags = calculateBags totalVolume;
          bagCost = calculateBagCost bags None None;
          readymixCost = calculateReadymixCost totalVolume None
      in Valid \<lparr>baseVolume = baseVolume, totalVolume = totalVolume, bags = bags,
                 bagCost = bagCost, readymixCost = readymixCost,
                 volumePerColumn = volumePerColumn\<rparr>)"

definition calculateColumn :: "column_params \<Rightarrow> column_results outcome" where
  "calculateColumn params =
     (let shape = default_to (shape_column params) ''round'';
          diameter = default_to (diameter_column params) 0;
          width = default_to (width_column params) 0;
          depth = default_to (depth_column params) 0;
          columnCount = default_to (columnCount_column params) 1;
          wastage = default_to (wastage_column params) DEFAULT_WASTAGE in
      case height_column params of
        Some height \<Rightarrow>
          if height = 0 \<or> height \<le> 0 \<or> columnCount < 1
          then Invalid ''Please enter valid positive dimensions''
          else if shape = ''round'' then
            (if diameter = 0 \<or> diameter \<le> 0 then Invalid ''Please enter a valid diameter''
             else
               let radius = diameter / 2;
                   volumePerColumn = PI * radius\<^sup>2 * height
               in column_totals volumePerColumn columnCount wastage)
          else
            (if width = 0 \<or> width \<le> 0 then Invalid ''Please enter valid width''
             else
               let columnDepth = (if depth > 0 then depth else width);
                   volumePerColumn = width * columnDepth * height
               in column_totals volumePerColumn columnCount wastage)
      | None \<Rightarrow> Invalid ''Please enter valid positive dimensions'')"

subsection \<open>calculateCircularSlab\<close>

record circular_slab_params =
  diameter_circular :: "real option"
  thickness_circular :: "real option"
  wastage_circular :: "real option"

definition calculateCircularSlab :: "circular_slab_params \<Rightarrow> results outcome" where
  "calculateCircularSlab params =
     (let wastage = default_to (wastage_circular params) DEFAULT_WASTAGE in
      case (diameter_circular params, thickness_circular params) of
        (Some diameter, Some thickness) \<Rightarrow>
          if diameter = 0 \<or> thickness = 0 \<or> diameter \<le> 0 \<or> thickness \<le> 0
          then Invalid ''Please enter valid positive dimensions''
          else
            let radius = diameter / 2;
                baseVolume = PI * radius\<^sup>2 * thickness;
                totalVolume = applyWastage baseVolume wastage;
                bags = calculateBags totalVolume;
                bagCost = calculateBagCost bags None None;
                readymixCost = calculateReadymixCost totalVolume None
            in Valid \<lparr>baseVolume = baseVolume, totalVolume = totalVolume, bags = bags,
                       bagCost = bagCost, readymixCost = readymixCost\<rparr>
      | _ \<Rightarrow> Invalid ''Please enter valid positive dimensions'')"

subsection \<open>compareBagsVsReadymix\<close>

record compare_params =
  volume_compare :: "real option"
  state_compare :: "string option"
  bagPrice_compare :: "real option"

record bag_cost_avg = "real range" +
  avg_bags :: real

record readymix_cost_avg = readymix_cost +
  avg_readymix :: number

datatype choice = Bags | Readymix | Either

record bags_side =
  quantity :: int
  cost_bags :: bag_cost_avg
  labourHours :: real
  weight :: int

record readymix_side =
  volume_readymix :: real
  cost_readymix :: readymix_cost_avg
  hasMinimumApplied_readymix :: bool

record comparison =
  costDifference :: number
  cheaperOption :: choice
  recommendation :: choice

record compare_results =
  bags_results :: bags_side
  readymix_results :: readymix_side
  comparison_results :: comparison

text \<open>\<open>bagPrice || d\<close>: \<open>null\<close> and \<open>0\<close> are falsy and give \<open>d\<close>.\<close>

definition or_else :: "real option \<Rightarrow> real \<Rightarrow> real" where
  "or_else x d = (case x of None \<Rightarrow> d | Some v \<Rightarrow> if v = 0 then d else v)"

text \<open>
  The \<open>reasons\<close> strings that accompany the recommendation are display text (two of them
  format a number with \<open>toFixed\<close>) and are left out.
\<close>

definition compareBagsVsReadymix :: "compare_params \<Rightarrow> compare_results outcome" where
  "compareBagsVsReadymix params =
     (let state = state_compare params;
          bagPrice = bagPrice_compare params in
      case volume_compare params of
        Some volume \<Rightarrow>
          if volume = 0 \<or> volume \<le> 0 then Invalid ''Please enter a valid volume''
          else
            let bags = calculateBags volume;
                bagPriceMin = or_else bagPrice BAG_PRICE_MIN;
                bagPriceMax = or_else bagPrice BAG_PRICE_MAX;
                bagCost = \<lparr>min' = of_int bags * bagPriceMin,
                           max' = of_int bags * bagPriceMax,
                           avg_bags = of_int bags * (bagPriceMin + bagPriceMax) / 2\<rparr>;
                readymixCost = calculateReadymixCost volume state;
                readymixCost_avg = (min' readymixCost + max' readymixCost) / Val 2;
                costDifference = Val (avg_bags bagCost) - readymixCost_avg;
                bagsLabourHours = of_int bags * 0.05;
                recommendation =
                  (if volume < 0.3 then Bags
                   else if volume < 0.8 then (if costDifference > Val 50 then Readymix else Either)
                   else Readymix)
            in Valid
                 \<lparr>bags_results =
                    \<lparr>quantity = bags, cost_bags = bagCost, labourHours = bagsLabourHours,
                     weight = bags * 20\<rparr>,
                  readymix_results =
                    \<lparr>volume_readymix = volume' readymixCost,
                     cost_readymix =
                       \<lparr>min' = min' readymixCost, max' = max' readymixCost,
                        volume' = volume' readymixCost,
                        hasMinimumApplied = hasMinimumApplied readymixCost,
                        avg_readymix = readymixCost_avg\<rparr>,
                     hasMinimumApplied_readymix = hasMinimumApplied readymixCost\<rparr>,
                  comparison_results =
                    \<lparr>costDifference = costDifference,
                     cheaperOption = (if costDifference > Val 0 then Readymix else Bags),
                     recommendation = recommendation\<rparr>\<rparr>
      | None \<Rightarrow> Invalid ''Please enter a valid volume'')"


subsection \<open>Vocabulary of the specification\<close>

text \<open>
  The specification speaks of a dimension that is ``missing, zero, or negative'' and of a
  count that is ``less than 1''. An absent count takes its default \<open>1\<close>, so it is not
  below one.
\<close>

definition missing_or_nonpositive :: "real option \<Rightarrow> bool" where
  "missing_or_nonpositive x = (case x of None \<Rightarrow> True | Some v \<Rightarrow> v \<le> 0)"

definition below_one :: "real option \<Rightarrow> bool" where
  "below_one x = (case x of None \<Rightarrow> False | Some n \<Rightarrow> n < 1)"


section \<open>Properties\<close>

subsection \<open>Arithmetic with NaN\<close>

lemma number_arith [simp]:
  "Val x + Val y = Val (x + y)"
  "Val x - Val y = Val (x - y)"
  "Val x * Val y = Val (x * y)"
  "Val x / Val y = Val (x / y)"
  "NaN + b = NaN" "a + NaN = NaN"
  "NaN - b = NaN" "a - NaN = NaN"
  "NaN * b = NaN" "a * NaN = NaN"
  "NaN / b = NaN" "a / NaN = NaN"
  by (simp_all add: plus_number_def minus_number_def times_number_def divide_number_def
      split: number.splits)

lemma number_less [simp]:
  "Val x < Val y \<longleftrightarrow> x < y"
  "\<not> NaN < b" "\<not> a < NaN"
  by (simp_all add: less_number_def split: number.splits)

lemma ToNumber_simps [simp]:
  "ToNumber None = NaN" "ToNumber (Some v) = Val v"
  by (simp_all add: ToNumber_def)

subsection \<open>Bags and ready-mix cost\<close>

text \<open>
  C5. For every volume \<open>v\<close>, \<open>calculateBags v\<close> is exactly the ceiling of \<open>v * 108\<close>
  (an integer by its type), and \<open>calculateBags\<close> is monotonically non-decreasing in \<open>v\<close>.
\<close>

theorem calculateBags_ceiling_mono:
  "calculateBags v = \<lceil>v * 108\<rceil> \<and> (v \<le> w \<longrightarrow> calculateBags v \<le> calculateBags w)"
  by (simp add: calculateBags_def BAGS_PER_CUBIC_METRE_def ceiling_mono)

theorem calculateBags_ceiling_mono_witness:
  "(1/100 :: real) \<le> 1 \<and> calculateBags (1/100) = 2 \<and> calculateBags (1/100) \<le> calculateBags 1"
  using calculateBags_ceiling_mono [of "1/100" 1]
  by simp


text \<open>The recognised region codes are the eight own keys of the price table.\<close>

lemma READYMIX_PRICES_dom:
  "dom (map_of READYMIX_PRICES)
   = {''nsw'', ''vic'', ''qld'', ''wa'', ''sa'', ''tas'', ''nt'', ''act''}"
  by (auto simp: READYMIX_PRICES_def dom_def split: if_splits)

lemma READYMIX_PRICES_disjoint:
  "set Object_prototype \<inter> dom (map_of READYMIX_PRICES) = {}"
  by (simp add: READYMIX_PRICES_dom) (simp add: Object_prototype_def)

lemma property_READYMIX_PRICES:
  "property READYMIX_PRICES s =
     (if s \<in> dom (map_of READYMIX_PRICES) then Some (Own (the (map_of READYMIX_PRICES s)))
      else if s \<in> set Object_prototype then Some Inherited else None)"
  by (auto simp: property_def split: option.splits)

lemma READYMIX_PRICES_nonempty:
  "[] \<notin> dom (map_of READYMIX_PRICES)" "[] \<notin> set Object_prototype"
  by (simp_all add: READYMIX_PRICES_dom Object_prototype_def)

text \<open>
  What \<open>calculateReadymixCost\<close> returns: the billed volume \<open>max v 0.5\<close> and the flag
  \<open>v < 0.5\<close> for every region argument; the costs of the region's range for an own key
  of the price table, of the global range 200 to 420 when no code is given or the code is
  neither an own key nor a name inherited from \<open>Object.prototype\<close>, and \<open>NaN\<close> for an
  inherited name.
\<close>

lemma calculateReadymixCost_cases:
  "volume' (calculateReadymixCost v st) = max v 0.5
   \<and> hasMinimumApplied (calculateReadymixCost v st) = (v < 0.5)
   \<and> (\<forall>s p. st = Some s \<and> map_of READYMIX_PRICES s = Some p \<longrightarrow>
          min' (calculateReadymixCost v st) = Val (max v 0.5 * min' p)
        \<and> max' (calculateReadymixCost v st) = Val (max v 0.5 * max' p))
   \<and> (st = None \<or> (\<exists>s. st = Some s \<and> s \<notin> dom (map_of READYMIX_PRICES)
                        \<and> s \<notin> set Object_prototype) \<longrightarrow>
          min' (calculateReadymixCost v st) = Val (max v 0.5 * 200)
        \<and> max' (calculateReadymixCost v st) = Val (max v 0.5 * 420))
   \<and> (\<forall>s. st = Some s \<and> s \<in> set Object_prototype \<longrightarrow>
          min' (calculateReadymixCost v st) = NaN
        \<and> max' (calculateReadymixCost v st) = NaN)"
proof (intro conjI allI impI)
  show "volume' (calculateReadymixCost v st) = max v 0.5"
    by (simp add: calculateReadymixCost_def Let_def READYMIX_MINIMUM_ORDER_def)
  show "hasMinimumApplied (calculateReadymixCost v st) = (v < 0.5)"
    by (simp add: calculateReadymixCost_def Let_def READYMIX_MINIMUM_ORDER_def)
next
  fix s p
  assume "st = Some s \<and> map_of READYMIX_PRICES s = Some p"
  then have st: "st = Some s" and p: "map_of READYMIX_PRICES s = Some p"
    by simp_all
  from p have "s \<in> dom (map_of READYMIX_PRICES)" by blast
  with READYMIX_PRICES_nonempty(1) have "s \<noteq> []" by blast
  with st p show "min' (calculateReadymixCost v st) = Val (max v 0.5 * min' p)"
    and "max' (calculateReadymixCost v st) = Val (max v 0.5 * max' p)"
    by (simp_all add: calculateReadymixCost_def Let_def READYMIX_MINIMUM_ORDER_def property_def)
next
  assume "st = None \<or> (\<exists>s. st = Some s \<and> s \<notin> dom (map_of READYMIX_PRICES)
                        \<and> s \<notin> set Object_prototype)"
  then have "st = None \<or> (\<exists>s. st = Some s \<and> (s = [] \<or> property READYMIX_PRICES s = None))"
    by (auto simp: property_READYMIX_PRICES)
  then show "min' (calculateReadymixCost v st) = Val (max v 0.5 * 200)"
    and "max' (calculateReadymixCost v st) = Val (max v 0.5 * 420)"
    by (auto simp: calculateReadymixCost_def Let_def READYMIX_MINIMUM_ORDER_def
        READYMIX_PRICE_MIN_def READYMIX_PRICE_MAX_def)
next
  fix s
  assume "st = Some s \<and> s \<in> set Object_prototype"
  then have st: "st = Some s" and s: "s \<in> set Object_prototype"
    by simp_all
  from s READYMIX_PRICES_disjoint have "s \<notin> dom (map_of READYMIX_PRICES)" by blast
  with s have "property READYMIX_PRICES s = Some Inherited"
    by (simp add: property_READYMIX_PRICES)
  moreover from s READYMIX_PRICES_nonempty(2) have "s \<noteq> []" by blast
  ultimately show "min' (calculateReadymixCost v st) = NaN"
    and "max' (calculateReadymixCost v st) = NaN"
    using st by (simp_all add: calculateReadymixCost_def Let_def)
qed

text \<open>
  C4. The claim is that the costs are the billed volume times the region's range for a
  recognised region code and times the global range 200 to 420 otherwise. The code does
  not do this for the name \<open>constructor\<close>: it is not a key of the price table, and for a
  volume of 1 the costs are \<open>NaN\<close>, not 200 and 420. The billed volume and the flag are
  as claimed.
\<close>

theorem calculateReadymixCost_inherited_key:
  "map_of READYMIX_PRICES ''constructor'' = None
   \<and> calculateReadymixCost 1 (Some ''constructor'')
     = \<lparr>min' = NaN, max' = NaN, volume' = 1, hasMinimumApplied = False\<rparr>
   \<and> min' (calculateReadymixCost 1 (Some ''constructor'')) \<noteq> Val (max 1 0.5 * 200)
   \<and> max' (calculateReadymixCost 1 (Some ''constructor'')) \<noteq> Val (max 1 0.5 * 420)"
  by (simp add: calculateReadymixCost_def Let_def property_def READYMIX_PRICES_def
      Object_prototype_def READYMIX_MINIMUM_ORDER_def)


subsection \<open>The rectangular slab scenario\<close>

lemma bags_stable:
  fixes t :: real
  assumes "\<bar>t - 1.32\<bar> \<le> 1 / 1000000000"
  shows "calculateBags t = 143"
proof -
  from assms have "\<bar>t - 33 / 25\<bar> \<le> 1 / 1000000000"
    by simp
  then have "142 < t * 108" and "t * 108 \<le> 143"
    by linarith+
  then have "of_int 143 - 1 < t * 108" and "t * 108 \<le> of_int 143"
    by simp_all
  then have "\<lceil>t * 108\<rceil> = 143"
    by (rule ceiling_unique)
  then show ?thesis
    by (simp add: calculateBags_def BAGS_PER_CUBIC_METRE_def)
qed

text \<open>
  C8. \<open>calculateRectangularSlab\<close> with length 3, width 4, depth 0.1 (100 mm) and
  wastage 10 returns a Valid result with base volume 1.2, total volume 1.32 and
  143 bags, which is the ceiling of \<open>1.32 * 108\<close>. The bag count does not depend on the
  last digits of the volumes: a base volume within \<open>1 / 10 ^ 10\<close> of 1.2 gives a
  total within \<open>1 / 10 ^ 9\<close> of 1.32, and every total within \<open>1 / 10 ^ 9\<close> of 1.32 gives
  143 bags.
\<close>

theorem slab_scenario:
  "calculateRectangularSlab
     \<lparr>length_slab = Some 3, width_slab = Some 4, depth_slab = Some (mmToMetres 100),
      wastage_slab = Some 10\<rparr>
   = Valid \<lparr>baseVolume = 1.2, totalVolume = 1.32, bags = 143,
       bagCost = \<lparr>min' = 1215.5, max' = 1787.5\<rparr>,
       readymixCost =
         \<lparr>min' = Val 264, max' = Val 554.4, volume' = 1.32, hasMinimumApplied = False\<rparr>\<rparr>
   \<and> \<lceil>1.32 * 108 :: real\<rceil> = 143
   \<and> (\<bar>b - 1.2\<bar> \<le> 1 / 10000000000 \<longrightarrow> \<bar>applyWastage b 10 - 1.32\<bar> \<le> 1 / 1000000000)
   \<and> (\<bar>t - 1.32\<bar> \<le> 1 / 1000000000 \<longrightarrow> calculateBags t = 143)"
proof (intro conjI impI)
  show "calculateRectangularSlab
     \<lparr>length_slab = Some 3, width_slab = Some 4, depth_slab = Some (mmToMetres 100),
      wastage_slab = Some 10\<rparr>
   = Valid \<lparr>baseVolume = 1.2, totalVolume = 1.32, bags = 143,
       bagCost = \<lparr>min' = 1215.5, max' = 1787.5\<rparr>,
       readymixCost =
         \<lparr>min' = Val 264, max' = Val 554.4, volume' = 1.32, hasMinimumApplied = False\<rparr>\<rparr>"
    by (simp add: calculateRectangularSlab_def Let_def mmToMetres_def applyWastage_def
        calculateBags_def BAGS_PER_CUBIC_METRE_def calculateBagCost_def default_to_def
        BAG_PRICE_MIN_def BAG_PRICE_MAX_def calculateReadymixCost_def READYMIX_PRICE_MIN_def
        READYMIX_PRICE_MAX_def READYMIX_MINIMUM_ORDER_def)
  show "\<lceil>1.32 * 108 :: real\<rceil> = 143"
    by simp
  show "\<bar>applyWastage b 10 - 1.32\<bar> \<le> 1 / 1000000000" if "\<bar>b - 1.2\<bar> \<le> 1 / 10000000000"
  proof -
    from that have "\<bar>b - 6 / 5\<bar> \<le> 1 / 10000000000" by simp
    then have "\<bar>b * (11 / 10) - 33 / 25\<bar> \<le> 1 / 1000000000" by linarith
    then show ?thesis by (simp add: applyWastage_def)
  qed
  show "calculateBags t = 143" if "\<bar>t - 1.32\<bar> \<le> 1 / 1000000000"
    using that by (rule bags_stable)
qed

theorem slab_scenario_witness:
  "\<bar>1.2000000000000002 - 1.2 :: real\<bar> \<le> 1 / 10000000000
   \<and> \<bar>applyWastage 1.2000000000000002 10 - 1.32\<bar> \<le> 1 / 1000000000
   \<and> \<bar>1.3200000000000003 - 1.32 :: real\<bar> \<le> 1 / 1000000000
   \<and> calculateBags 1.3200000000000003 = 143"
  using slab_scenario [of "1.2000000000000002" "1.3200000000000003"]
  by simp


subsection \<open>Post holes\<close>

text \<open>
  What \<open>calculatePostHole\<close> returns when the validation passes, and that a Valid result
  comes only from an input that passes it.
\<close>

lemma calculatePostHole_Valid:
  assumes "holeDiameter_post p = Some D" and "0 < D"
    and "holeDepth_post p = Some d" and "0 < d"
    and "1 \<le> default_to (postCount_post p) 1"
  shows "\<exists>r. calculatePostHole p = Valid r
     \<and> holeVolume r = pi * (D / 2)\<^sup>2 * d
     \<and> postVolume r =
         (if 0 < default_to (postWidth_post p) 0 then
            (if default_to (postShape_post p) ''square'' = ''round''
             then pi * (default_to (postWidth_post p) 0 / 2)\<^sup>2 * d
             else default_to (postWidth_post p) 0 * default_to (postWidth_post p) 0 * d)
          else 0)
     \<and> concretePerHole r = holeVolume r - postVolume r
     \<and> baseVolume r = concretePerHole r * default_to (postCount_post p) 1
     \<and> totalVolume r = baseVolume r * (1 + default_to (wastage_post p) DEFAULT_WASTAGE / 100)
     \<and> bags r = \<lceil>totalVolume r * 108\<rceil>"
  using assms
  by (simp add: calculatePostHole_def Let_def PI_def applyWastage_def calculateBags_def
      BAGS_PER_CUBIC_METRE_def)

lemma calculatePostHole_Valid_D:
  assumes "calculatePostHole p = Valid r"
  shows "\<exists>D d. holeDiameter_post p = Some D \<and> 0 < D \<and> holeDepth_post p = Some d \<and> 0 < d
     \<and> 1 \<le> default_to (postCount_post p) 1"
  using assms
  by (auto simp: calculatePostHole_def Let_def split: option.splits if_splits)


text \<open>
  C1 (as amended). \<open>calculatePostHole\<close> has no guard on the post volume. It returns a
  Valid result exactly when the hole diameter and the hole depth are present and positive
  and the post count is at least 1. The net concrete per hole of a Valid result is the
  hole volume minus the post volume, also when the post volume exceeds the hole volume:
  the net concrete per hole and the base volume are then negative.
\<close>

theorem post_hole_no_volume_guard:
  "(valid (calculatePostHole p) \<longleftrightarrow>
      (\<exists>D d. holeDiameter_post p = Some D \<and> 0 < D \<and> holeDepth_post p = Some d \<and> 0 < d
         \<and> 1 \<le> default_to (postCount_post p) 1))
   \<and> (valid (calculatePostHole p) \<longrightarrow>
        concretePerHole (results (calculatePostHole p))
          = holeVolume (results (calculatePostHole p)) - postVolume (results (calculatePostHole p))
      \<and> (holeVolume (results (calculatePostHole p)) < postVolume (results (calculatePostHole p))
          \<longrightarrow> concretePerHole (results (calculatePostHole p)) < 0
            \<and> baseVolume (results (calculatePostHole p)) < 0))"
proof (intro conjI iffI impI)
  assume "valid (calculatePostHole p)"
  then have "calculatePostHole p = Valid (results (calculatePostHole p))" by simp
  then show "\<exists>D d. holeDiameter_post p = Some D \<and> 0 < D \<and> holeDepth_post p = Some d \<and> 0 < d
         \<and> 1 \<le> default_to (postCount_post p) 1"
    by (rule calculatePostHole_Valid_D)
next
  assume "\<exists>D d. holeDiameter_post p = Some D \<and> 0 < D \<and> holeDepth_post p = Some d \<and> 0 < d
         \<and> 1 \<le> default_to (postCount_post p) 1"
  then obtain D d where "holeDiameter_post p = Some D" "0 < D" "holeDepth_post p = Some d" "0 < d"
      "1 \<le> default_to (postCount_post p) 1"
    by blast
  from calculatePostHole_Valid [OF this] show "valid (calculatePostHole p)" by auto
next
  assume v: "valid (calculatePostHole p)"
  then have "calculatePostHole p = Valid (results (calculatePostHole p))" by simp
  from calculatePostHole_Valid_D [OF this] obtain D d where
    *: "holeDiameter_post p = Some D" "0 < D" "holeDepth_post p = Some d" "0 < d"
      "1 \<le> default_to (postCount_post p) 1"
    by blast
  from calculatePostHole_Valid [OF *] obtain r where
    r: "calculatePostHole p = Valid r" "concretePerHole r = holeVolume r - postVolume r"
       "baseVolume r = concretePerHole r * default_to (postCount_post p) 1"
    by blast
  from r show "concretePerHole (results (calculatePostHole p))
          = holeVolume (results (calculatePostHole p)) - postVolume (results (calculatePostHole p))"
    by simp
  assume "holeVolume (results (calculatePostHole p)) < postVolume (results (calculatePostHole p))"
  with r have neg: "concretePerHole r < 0" by simp
  with r show "concretePerHole (results (calculatePostHole p)) < 0" by simp
  from neg *(5) have "concretePerHole r * default_to (postCount_post p) 1 < 0"
    by (simp add: mult_neg_pos)
  with r show "baseVolume (results (calculatePostHole p)) < 0" by simp
qed

theorem post_hole_no_volume_guard_witness:
  "valid (calculatePostHole
      \<lparr>holeDiameter_post = Some 0.2, holeDepth_post = Some 0.5, postWidth_post = Some 0.2,
       postCount_post = Some 4, postShape_post = None, wastage_post = None\<rparr>)
   \<and> concretePerHole (results (calculatePostHole
      \<lparr>holeDiameter_post = Some 0.2, holeDepth_post = Some 0.5, postWidth_post = Some 0.2,
       postCount_post = Some 4, postShape_post = None, wastage_post = None\<rparr>)) < 0
   \<and> baseVolume (results (calculatePostHole
      \<lparr>holeDiameter_post = Some 0.2, holeDepth_post = Some 0.5, postWidth_post = Some 0.2,
       postCount_post = Some 4, postShape_post = None, wastage_post = None\<rparr>)) < 0"
proof -
  let ?p = "\<lparr>holeDiameter_post = Some 0.2, holeDepth_post = Some 0.5, postWidth_post = Some 0.2,
       postCount_post = Some 4, postShape_post = None, wastage_post = None\<rparr>"
  have v: "\<exists>D d. holeDiameter_post ?p = Some D \<and> 0 < D \<and> holeDepth_post ?p = Some d \<and> 0 < d
         \<and> 1 \<le> default_to (postCount_post ?p) 1"
    by (rule exI [of _ "0.2"], rule exI [of _ "0.5"]) (simp add: default_to_def)
  have lt: "holeVolume (results (calculatePostHole ?p)) < postVolume (results (calculatePostHole ?p))"
    using pi_less_4
    by (simp add: calculatePostHole_def Let_def default_to_def PI_def power2_eq_square)
  from post_hole_no_volume_guard [of ?p] v lt show ?thesis
    by blast
qed


text \<open>
  C1 as stated fails: a square post of 300 mm in a hole of 300 mm has more volume than
  the hole, and the result is Valid.
\<close>

theorem post_hole_no_volume_guard_counterexample:
  "valid (calculatePostHole
      \<lparr>holeDiameter_post = Some 0.3, holeDepth_post = Some 0.6, postWidth_post = Some 0.3,
       postCount_post = Some 1, postShape_post = Some ''square'', wastage_post = Some 10\<rparr>)
   \<and> holeVolume (results (calculatePostHole
      \<lparr>holeDiameter_post = Some 0.3, holeDepth_post = Some 0.6, postWidth_post = Some 0.3,
       postCount_post = Some 1, postShape_post = Some ''square'', wastage_post = Some 10\<rparr>))
     < postVolume (results (calculatePostHole
      \<lparr>holeDiameter_post = Some 0.3, holeDepth_post = Some 0.6, postWidth_post = Some 0.3,
       postCount_post = Some 1, postShape_post = Some ''square'', wastage_post = Some 10\<rparr>))"
  using pi_less_4
  by (simp add: calculatePostHole_def Let_def default_to_def PI_def power2_eq_square)


lemma round_post_fits:
  fixes w D d :: real
  assumes "0 < w" and "w \<le> D" and "0 < d"
  shows "pi * (w / 2)\<^sup>2 * d \<le> pi * (D / 2)\<^sup>2 * d"
proof -
  from assms have "(w / 2)\<^sup>2 \<le> (D / 2)\<^sup>2"
    by (intro power_mono) simp_all
  then have "pi * (w / 2)\<^sup>2 \<le> pi * (D / 2)\<^sup>2"
    by (simp add: mult_left_mono)
  with \<open>0 < d\<close> show ?thesis
    by (simp add: mult_right_mono)
qed

text \<open>
  C2 (as amended). For an input with hole diameter \<open>D > 0\<close>, hole depth \<open>d > 0\<close>,
  post count at least 1 and post width at most \<open>D\<close>, where in addition a square post
  has a cross-section \<open>postWidth * postWidth\<close> of at most the cross-section
  \<open>pi * (D / 2)\<^sup>2\<close> of the hole, and with a wastage of at least \<open>-100\<close>, the result is
  Valid and the concrete per hole, the base volume and the total volume are not negative.
\<close>

theorem post_hole_volume_nonnegative:
  assumes "holeDiameter_post p = Some D" and "0 < D"
    and "holeDepth_post p = Some d" and "0 < d"
    and "1 \<le> default_to (postCount_post p) 1"
    and "default_to (postWidth_post p) 0 \<le> D"
    and "default_to (postShape_post p) ''square'' \<noteq> ''round'' \<and> 0 < default_to (postWidth_post p) 0
         \<longrightarrow> default_to (postWidth_post p) 0 * default_to (postWidth_post p) 0 \<le> pi * (D / 2)\<^sup>2"
    and "- 100 \<le> default_to (wastage_post p) DEFAULT_WASTAGE"
  shows "\<exists>r. calculatePostHole p = Valid r
     \<and> 0 \<le> concretePerHole r \<and> 0 \<le> baseVolume r \<and> 0 \<le> totalVolume r"
proof -
  let ?w = "default_to (postWidth_post p) 0"
  from calculatePostHole_Valid [OF assms(1-5)] obtain r where
    r: "calculatePostHole p = Valid r"
       "holeVolume r = pi * (D / 2)\<^sup>2 * d"
       "postVolume r =
         (if 0 < ?w then
            (if default_to (postShape_post p) ''square'' = ''round''
             then pi * (?w / 2)\<^sup>2 * d else ?w * ?w * d)
          else 0)"
       "concretePerHole r = holeVolume r - postVolume r"
       "baseVolume r = concretePerHole r * default_to (postCount_post p) 1"
       "totalVolume r = baseVolume r * (1 + default_to (wastage_post p) DEFAULT_WASTAGE / 100)"
    by blast
  have hole: "0 \<le> holeVolume r"
    using \<open>0 < d\<close> by (simp add: r)
  have "postVolume r \<le> holeVolume r"
  proof (cases "0 < ?w")
    case False
    with hole show ?thesis by (simp add: r(3))
  next
    case True
    show ?thesis
    proof (cases "default_to (postShape_post p) ''square'' = ''round''")
      case True
      with \<open>0 < ?w\<close> round_post_fits [OF \<open>0 < ?w\<close> assms(6) \<open>0 < d\<close>] show ?thesis
        by (simp add: r)
    next
      case False
      with \<open>0 < ?w\<close> assms(7) have "?w * ?w \<le> pi * (D / 2)\<^sup>2" by simp
      with \<open>0 < d\<close> have "?w * ?w * d \<le> pi * (D / 2)\<^sup>2 * d"
        by (simp add: mult_right_mono)
      with False \<open>0 < ?w\<close> show ?thesis by (simp add: r)
    qed
  qed
  then have c: "0 \<le> concretePerHole r" by (simp add: r)
  with assms(5) have b: "0 \<le> baseVolume r" by (simp add: r)
  from assms(8) have "0 \<le> 1 + default_to (wastage_post p) DEFAULT_WASTAGE / 100" by simp
  with b have "0 \<le> totalVolume r" by (simp add: r)
  with r(1) c b show ?thesis by blast
qed

theorem post_hole_volume_nonnegative_witness:
  "(0.1 :: real) \<le> 0.3
   \<and> (0.1 :: real) * 0.1 \<le> pi * (0.3 / 2)\<^sup>2
   \<and> (\<exists>r. calculatePostHole
      \<lparr>holeDiameter_post = Some 0.3, holeDepth_post = Some 0.6, postWidth_post = Some 0.1,
       postCount_post = Some 1, postShape_post = Some ''square'', wastage_post = Some 10\<rparr>
      = Valid r \<and> 0 \<le> concretePerHole r \<and> 0 \<le> baseVolume r \<and> 0 \<le> totalVolume r)"
proof -
  let ?p = "\<lparr>holeDiameter_post = Some 0.3, holeDepth_post = Some 0.6, postWidth_post = Some 0.1,
       postCount_post = Some 1, postShape_post = Some ''square'', wastage_post = Some 10\<rparr>"
  have sq: "(0.1 :: real) * 0.1 \<le> pi * (0.3 / 2)\<^sup>2"
    using pi_ge_two by (simp add: power2_eq_square)
  have "\<exists>r. calculatePostHole ?p = Valid r
     \<and> 0 \<le> concretePerHole r \<and> 0 \<le> baseVolume r \<and> 0 \<le> totalVolume r"
    by (rule post_hole_volume_nonnegative [of ?p "0.3" "0.6"])
       (use sq in \<open>simp_all add: default_to_def\<close>)
  with sq show ?thesis by simp
qed


text \<open>
  C2 as stated fails for a square post: with post width equal to the hole diameter
  (200 mm) the post volume \<open>0.2 * 0.2 * 0.6\<close> exceeds the hole volume
  \<open>pi * 0.1\<^sup>2 * 0.6\<close>, and the per-hole, base and total volumes are negative.
\<close>

theorem post_hole_volume_nonnegative_counterexample:
  "valid (calculatePostHole
      \<lparr>holeDiameter_post = Some 0.2, holeDepth_post = Some 0.6, postWidth_post = Some 0.2,
       postCount_post = Some 1, postShape_post = Some ''square'', wastage_post = Some 10\<rparr>)
   \<and> (0.2 :: real) \<le> 0.2
   \<and> concretePerHole (results (calculatePostHole
      \<lparr>holeDiameter_post = Some 0.2, holeDepth_post = Some 0.6, postWidth_post = Some 0.2,
       postCount_post = Some 1, postShape_post = Some ''square'', wastage_post = Some 10\<rparr>)) < 0
   \<and> baseVolume (results (calculatePostHole
      \<lparr>holeDiameter_post = Some 0.2, holeDepth_post = Some 0.6, postWidth_post = Some 0.2,
       postCount_post = Some 1, postShape_post = Some ''square'', wastage_post = Some 10\<rparr>)) < 0
   \<and> totalVolume (results (calculatePostHole
      \<lparr>holeDiameter_post = Some 0.2, holeDepth_post = Some 0.6, postWidth_post = Some 0.2,
       postCount_post = Some 1, postShape_post = Some ''square'', wastage_post = Some 10\<rparr>)) < 0"
  using pi_less_4
  by (simp add: calculatePostHole_def Let_def default_to_def PI_def power2_eq_square
      applyWastage_def)


text \<open>
  C7. For every Valid post-hole result with post count \<open>n\<close>, the post volume is
  subtracted from the hole volume per hole, the difference is multiplied by \<open>n\<close>, the
  wastage is applied to that product, and the bag count is one ceiling of the whole:
  \<open>bags = \<lceil>n * (holeVolume - postVolume) * (1 + wastage / 100) * 108\<rceil>\<close>.
\<close>

theorem post_hole_rounds_once:
  assumes "calculatePostHole p = Valid r"
  shows "\<exists>D d. holeDiameter_post p = Some D \<and> holeDepth_post p = Some d
     \<and> holeVolume r = pi * (D / 2)\<^sup>2 * d
     \<and> postVolume r =
         (if 0 < default_to (postWidth_post p) 0 then
            (if default_to (postShape_post p) ''square'' = ''round''
             then pi * (default_to (postWidth_post p) 0 / 2)\<^sup>2 * d
             else default_to (postWidth_post p) 0 * default_to (postWidth_post p) 0 * d)
          else 0)
     \<and> concretePerHole r = holeVolume r - postVolume r
     \<and> baseVolume r = (holeVolume r - postVolume r) * default_to (postCount_post p) 1
     \<and> totalVolume r = (holeVolume r - postVolume r) * default_to (postCount_post p) 1
           * (1 + default_to (wastage_post p) DEFAULT_WASTAGE / 100)
     \<and> bags r = \<lceil>default_to (postCount_post p) 1 * (holeVolume r - postVolume r)
           * (1 + default_to (wastage_post p) DEFAULT_WASTAGE / 100) * 108\<rceil>"
proof -
  from calculatePostHole_Valid_D [OF assms] obtain D d where
    v: "holeDiameter_post p = Some D" "0 < D" "holeDepth_post p = Some d" "0 < d"
       "1 \<le> default_to (postCount_post p) 1"
    by blast
  from calculatePostHole_Valid [OF v] assms
  have r: "holeVolume r = pi * (D / 2)\<^sup>2 * d"
     "postVolume r =
         (if 0 < default_to (postWidth_post p) 0 then
            (if default_to (postShape_post p) ''square'' = ''round''
             then pi * (default_to (postWidth_post p) 0 / 2)\<^sup>2 * d
             else default_to (postWidth_post p) 0 * default_to (postWidth_post p) 0 * d)
          else 0)"
     "concretePerHole r = holeVolume r - postVolume r"
     "baseVolume r = concretePerHole r * default_to (postCount_post p) 1"
     "totalVolume r = baseVolume r * (1 + default_to (wastage_post p) DEFAULT_WASTAGE / 100)"
     "bags r = \<lceil>totalVolume r * 108\<rceil>"
    by auto
  have "bags r = \<lceil>default_to (postCount_post p) 1 * (holeVolume r - postVolume r)
           * (1 + default_to (wastage_post p) DEFAULT_WASTAGE / 100) * 108\<rceil>"
    by (simp only: r mult.commute [of "default_to (postCount_post p) 1"])
  with v r show ?thesis by simp
qed


theorem post_hole_rounds_once_witness:
  "valid (calculatePostHole
      \<lparr>holeDiameter_post = Some 0.3, holeDepth_post = Some 0.6, postWidth_post = Some 0.1,
       postCount_post = Some 10, postShape_post = Some ''square'', wastage_post = Some 10\<rparr>)
   \<and> holeVolume (results (calculatePostHole
      \<lparr>holeDiameter_post = Some 0.3, holeDepth_post = Some 0.6, postWidth_post = Some 0.1,
       postCount_post = Some 10, postShape_post = Some ''square'', wastage_post = Some 10\<rparr>))
     = pi * (0.3 / 2)\<^sup>2 * 0.6
   \<and> postVolume (results (calculatePostHole
      \<lparr>holeDiameter_post = Some 0.3, holeDepth_post = Some 0.6, postWidth_post = Some 0.1,
       postCount_post = Some 10, postShape_post = Some ''square'', wastage_post = Some 10\<rparr>))
     = 0.1 * 0.1 * 0.6
   \<and> bags (results (calculatePostHole
      \<lparr>holeDiameter_post = Some 0.3, holeDepth_post = Some 0.6, postWidth_post = Some 0.1,
       postCount_post = Some 10, postShape_post = Some ''square'', wastage_post = Some 10\<rparr>))
     = \<lceil>10 * (pi * (0.3 / 2)\<^sup>2 * 0.6 - 0.1 * 0.1 * 0.6) * (1 + 10 / 100) * 108\<rceil>"
proof -
  let ?p = "\<lparr>holeDiameter_post = Some 0.3, holeDepth_post = Some 0.6, postWidth_post = Some 0.1,
       postCount_post = Some 10, postShape_post = Some ''square'', wastage_post = Some 10\<rparr>"
  let ?r = "results (calculatePostHole ?p)"
  have v: "valid (calculatePostHole ?p)"
    by (simp add: calculatePostHole_def Let_def default_to_def)
  then have "calculatePostHole ?p = Valid ?r"
    by simp
  from post_hole_rounds_once [OF this] obtain D d where
    Dd: "holeDiameter_post ?p = Some D" "holeDepth_post ?p = Some d"
    and hv: "holeVolume ?r = pi * (D / 2)\<^sup>2 * d"
    and pv: "postVolume ?r =
         (if 0 < default_to (postWidth_post ?p) 0 then
            (if default_to (postShape_post ?p) ''square'' = ''round''
             then pi * (default_to (postWidth_post ?p) 0 / 2)\<^sup>2 * d
             else default_to (postWidth_post ?p) 0 * default_to (postWidth_post ?p) 0 * d)
          else 0)"
    and b: "bags ?r = \<lceil>default_to (postCount_post ?p) 1 * (holeVolume ?r - postVolume ?r)
           * (1 + default_to (wastage_post ?p) DEFAULT_WASTAGE / 100) * 108\<rceil>"
    by blast
  from Dd have "D = 0.3" and "d = 0.6" by simp_all
  with hv pv have hv': "holeVolume ?r = pi * (0.3 / 2)\<^sup>2 * 0.6"
    and pv': "postVolume ?r = 0.1 * 0.1 * 0.6"
    by (simp_all add: default_to_def)
  from b have "bags ?r = \<lceil>10 * (holeVolume ?r - postVolume ?r) * (1 + 10 / 100) * 108\<rceil>"
    by (simp add: default_to_def)
  then have "bags ?r = \<lceil>10 * (pi * (0.3 / 2)\<^sup>2 * 0.6 - 0.1 * 0.1 * 0.6) * (1 + 10 / 100) * 108\<rceil>"
    by (simp only: hv' pv')
  with v hv' pv' show ?thesis by blast
qed

text \<open>
  One ceiling of the total is not the sum of the ceilings per hole: two holes of 100 mm
  by 300 mm without a post take 1 bag together, and one such hole alone takes 1 bag too.
\<close>

lemma post_hole_bags_not_sum_of_ceilings:
  "bags (results (calculatePostHole
      \<lparr>holeDiameter_post = Some 0.1, holeDepth_post = Some 0.3, postWidth_post = None,
       postCount_post = Some 2, postShape_post = None, wastage_post = None\<rparr>)) = 1
   \<and> bags (results (calculatePostHole
      \<lparr>holeDiameter_post = Some 0.1, holeDepth_post = Some 0.3, postWidth_post = None,
       postCount_post = Some 1, postShape_post = None, wastage_post = None\<rparr>)) = 1"
proof -
  have one: "\<lceil>x\<rceil> = 1" if "0 < x" and "x \<le> 1" for x :: real
    using that by (intro ceiling_unique) simp_all
  have "\<lceil>pi * (1 / 10 / 2)\<^sup>2 * (3 / 10) * 2 * (1 + 10 / 100) * 108\<rceil> = 1"
    using pi_gt_zero pi_less_4 by (intro one) (simp_all add: power2_eq_square)
  moreover have "\<lceil>pi * (1 / 10 / 2)\<^sup>2 * (3 / 10) * 1 * (1 + 10 / 100) * 108\<rceil> = 1"
    using pi_gt_zero pi_less_4 by (intro one) (simp_all add: power2_eq_square)
  ultimately show ?thesis
    by (simp add: calculatePostHole_def Let_def default_to_def PI_def
        applyWastage_def DEFAULT_WASTAGE_def calculateBags_def BAGS_PER_CUBIC_METRE_def)
qed

subsection \<open>Bags against ready-mix\<close>



text \<open>
  With the inherited name \<open>constructor\<close> as region the ready-mix costs and the cost
  difference are \<open>NaN\<close>; the comparison with 50 is then false and the recommendation in
  the middle band is either.
\<close>

lemma compare_inherited_key:
  "compareBagsVsReadymix
     \<lparr>volume_compare = Some 0.5, state_compare = Some ''constructor'', bagPrice_compare = None\<rparr>
   = Valid
       \<lparr>bags_results =
          \<lparr>quantity = 54, cost_bags = \<lparr>min' = 459, max' = 675, avg_bags = 567\<rparr>,
           labourHours = 2.7, weight = 1080\<rparr>,
        readymix_results =
          \<lparr>volume_readymix = 0.5,
           cost_readymix =
             \<lparr>min' = NaN, max' = NaN, volume' = 0.5, hasMinimumApplied = False,
              avg_readymix = NaN\<rparr>,
           hasMinimumApplied_readymix = False\<rparr>,
        comparison_results =
          \<lparr>costDifference = NaN, cheaperOption = Bags, recommendation = Either\<rparr>\<rparr>"
  by (simp add: compareBagsVsReadymix_def Let_def calculateBags_def BAGS_PER_CUBIC_METRE_def
      or_else_def BAG_PRICE_MIN_def BAG_PRICE_MAX_def calculateReadymixCost_def property_def
      READYMIX_PRICES_def Object_prototype_def READYMIX_MINIMUM_ORDER_def)




subsection \<open>Validation of the shape calculators\<close>

lemma slab_rejects:
  assumes "missing_or_nonpositive (length_slab p) \<or> missing_or_nonpositive (width_slab p)
           \<or> missing_or_nonpositive (depth_slab p)"
  shows "calculateRectangularSlab p = Invalid ''Please enter valid positive dimensions''"
  using assms
  by (auto simp: calculateRectangularSlab_def missing_or_nonpositive_def Let_def
      split: option.splits)

lemma post_hole_rejects:
  assumes "missing_or_nonpositive (holeDiameter_post p) \<or> missing_or_nonpositive (holeDepth_post p)
           \<or> below_one (postCount_post p)"
  shows "calculatePostHole p = Invalid ''Please enter valid positive dimensions''"
  using assms
  by (auto simp: calculatePostHole_def missing_or_nonpositive_def below_one_def Let_def
      default_to_def split: option.splits)

lemma footing_rejects:
  assumes "missing_or_nonpositive (length_footing p) \<or> missing_or_nonpositive (width_footing p)
           \<or> missing_or_nonpositive (depth_footing p) \<or> below_one (footingCount_footing p)"
  shows "calculateFooting p = Invalid ''Please enter valid positive dimensions''"
  using assms
  by (auto simp: calculateFooting_def missing_or_nonpositive_def below_one_def Let_def
      default_to_def split: option.splits)

lemma column_rejects:
  assumes "missing_or_nonpositive (height_column p) \<or> below_one (columnCount_column p)
           \<or> (default_to (shape_column p) ''round'' = ''round''
                \<and> missing_or_nonpositive (diameter_column p))
           \<or> (default_to (shape_column p) ''round'' \<noteq> ''round''
                \<and> missing_or_nonpositive (width_column p))"
  shows "calculateColumn p \<in> {Invalid ''Please enter valid positive dimensions'',
           Invalid ''Please enter a valid diameter'', Invalid ''Please enter valid width''}"
  using assms
  by (auto simp: calculateColumn_def missing_or_nonpositive_def below_one_def Let_def
      default_to_def split: option.splits)

lemma circular_rejects:
  assumes "missing_or_nonpositive (diameter_circular p) \<or> missing_or_nonpositive (thickness_circular p)"
  shows "calculateCircularSlab p = Invalid ''Please enter valid positive dimensions''"
  using assms
  by (auto simp: calculateCircularSlab_def missing_or_nonpositive_def Let_def
      split: option.splits)

text \<open>
  C6. Each of the five shape calculators returns an Invalid value that carries a
  message, and so no result fields, whenever a required dimension is missing, zero or
  negative, or a count is below 1. The required dimensions of a column are its height
  and, for the round shape (the default), its diameter, for any other shape its width.
  The model has no exceptions: a calculator is a total function into Invalid or Valid.
\<close>

theorem calculators_reject_bad_dimensions:
  "(missing_or_nonpositive (length_slab slab) \<or> missing_or_nonpositive (width_slab slab)
      \<or> missing_or_nonpositive (depth_slab slab)
     \<longrightarrow> calculateRectangularSlab slab = Invalid ''Please enter valid positive dimensions'')
   \<and> (missing_or_nonpositive (holeDiameter_post hole) \<or> missing_or_nonpositive (holeDepth_post hole)
      \<or> below_one (postCount_post hole)
     \<longrightarrow> calculatePostHole hole = Invalid ''Please enter valid positive dimensions'')
   \<and> (missing_or_nonpositive (length_footing footing) \<or> missing_or_nonpositive (width_footing footing)
      \<or> missing_or_nonpositive (depth_footing footing) \<or> below_one (footingCount_footing footing)
     \<longrightarrow> calculateFooting footing = Invalid ''Please enter valid positive dimensions'')
   \<and> (missing_or_nonpositive (height_column column) \<or> below_one (columnCount_column column)
      \<or> (default_to (shape_column column) ''round'' = ''round''
           \<and> missing_or_nonpositive (diameter_column column))
      \<or> (default_to (shape_column column) ''round'' \<noteq> ''round''
           \<and> missing_or_nonpositive (width_column column))
     \<longrightarrow> calculateColumn column \<in> {Invalid ''Please enter valid positive dimensions'',
           Invalid ''Please enter a valid diameter'', Invalid ''Please enter valid width''})
   \<and> (missing_or_nonpositive (diameter_circular disc) \<or> missing_or_nonpositive (thickness_circular disc)
     \<longrightarrow> calculateCircularSlab disc = Invalid ''Please enter valid positive dimensions'')"
  using slab_rejects [of slab] post_hole_rejects [of hole] footing_rejects [of footing]
    column_rejects [of column] circular_rejects [of disc]
  by blast

theorem calculators_reject_bad_dimensions_witness:
  "calculateRectangularSlab
     \<lparr>length_slab = None, width_slab = Some 4, depth_slab = Some 0.1, wastage_slab = None\<rparr>
     = Invalid ''Please enter valid positive dimensions''
   \<and> calculatePostHole
     \<lparr>holeDiameter_post = Some 0.3, holeDepth_post = Some 0.6, postWidth_post = Some 0.1,
      postCount_post = Some 0, postShape_post = None, wastage_post = None\<rparr>
     = Invalid ''Please enter valid positive dimensions''
   \<and> calculateFooting
     \<lparr>length_footing = Some 2, width_footing = Some 0.4, depth_footing = Some (- 0.3),
      footingCount_footing = None, wastage_footing = None\<rparr>
     = Invalid ''Please enter valid positive dimensions''
   \<and> calculateColumn
     \<lparr>shape_column = None, diameter_column = None, width_column = Some 0.3,
      depth_column = None, height_column = Some 2.4, columnCount_column = None,
      wastage_column = None\<rparr>
     = Invalid ''Please enter a valid diameter''
   \<and> calculateCircularSlab
     \<lparr>diameter_circular = Some 1.2, thickness_circular = Some 0, wastage_circular = Some 10\<rparr>
     = Invalid ''Please enter valid positive dimensions''"
  using calculators_reject_bad_dimensions
    [of "\<lparr>length_slab = None, width_slab = Some 4, depth_slab = Some 0.1, wastage_slab = None\<rparr>"
        "\<lparr>holeDiameter_post = Some 0.3, holeDepth_post = Some 0.6, postWidth_post = Some 0.1,
          postCount_post = Some 0, postShape_post = None, wastage_post = None\<rparr>"
        "\<lparr>length_footing = Some 2, width_footing = Some 0.4, depth_footing = Some (- 0.3),
          footingCount_footing = None, wastage_footing = None\<rparr>"
        "\<lparr>shape_column = None, diameter_column = None, width_column = Some 0.3,
          depth_column = None, height_column = Some 2.4, columnCount_column = None,
          wastage_column = None\<rparr>"
        "\<lparr>diameter_circular = Some 1.2, thickness_circular = Some 0, wastage_circular = Some 10\<rparr>"]
  by (simp add: missing_or_nonpositive_def below_one_def default_to_def calculateColumn_def)

subsection \<open>Wastage is not validated\<close>

lemma applyWastage_negative:
  assumes "0 < b" and "w < 0"
  shows "applyWastage b w < b \<and> (w \<le> - 100 \<longrightarrow> applyWastage b w \<le> 0)"
proof -
  from assms have "b * (1 + w / 100) < b * 1"
    by (intro mult_strict_left_mono) simp_all
  moreover have "b * (1 + w / 100) \<le> 0" if "w \<le> - 100"
    using that assms(1) by (simp add: mult_le_0_iff)
  ultimately show ?thesis by (simp add: applyWastage_def)
qed

lemma slab_Valid_D:
  assumes "calculateRectangularSlab p = Valid r"
  shows "0 < baseVolume r
     \<and> totalVolume r = applyWastage (baseVolume r) (default_to (wastage_slab p) DEFAULT_WASTAGE)"
  using assms
  by (auto simp: calculateRectangularSlab_def Let_def split: option.splits if_splits)

lemma slab_valid_wastage:
  "valid (calculateRectangularSlab (p\<lparr>wastage_slab := w\<rparr>)) = valid (calculateRectangularSlab p)"
  by (simp add: calculateRectangularSlab_def Let_def split: option.splits)

lemma post_hole_Valid_D:
  assumes "calculatePostHole p = Valid r"
  shows "baseVolume r = (holeVolume r - postVolume r) * default_to (postCount_post p) 1
     \<and> 1 \<le> default_to (postCount_post p) 1
     \<and> totalVolume r = applyWastage (baseVolume r) (default_to (wastage_post p) DEFAULT_WASTAGE)"
  using assms
  by (auto simp: calculatePostHole_def Let_def split: option.splits if_splits)

lemma post_hole_valid_wastage:
  "valid (calculatePostHole (p\<lparr>wastage_post := w\<rparr>)) = valid (calculatePostHole p)"
  by (simp add: calculatePostHole_def Let_def split: option.splits)

lemma footing_Valid_D:
  assumes "calculateFooting p = Valid r"
  shows "0 < baseVolume r
     \<and> totalVolume r = applyWastage (baseVolume r) (default_to (wastage_footing p) DEFAULT_WASTAGE)"
  using assms
  by (auto simp: calculateFooting_def Let_def split: option.splits if_splits
      intro!: mult_pos_pos)

lemma footing_valid_wastage:
  "valid (calculateFooting (p\<lparr>wastage_footing := w\<rparr>)) = valid (calculateFooting p)"
  by (simp add: calculateFooting_def Let_def split: option.splits)

lemma column_totals_D:
  assumes "column_totals v n w = Valid r" and "0 < v" and "1 \<le> n"
  shows "0 < baseVolume r \<and> totalVolume r = applyWastage (baseVolume r) w"
  using assms
  by (auto simp: column_totals_def Let_def intro!: mult_pos_pos)

lemma column_Valid_D:
  assumes "calculateColumn p = Valid r"
  shows "0 < baseVolume r
     \<and> totalVolume r = applyWastage (baseVolume r) (default_to (wastage_column p) DEFAULT_WASTAGE)"
proof (cases "height_column p")
  case None
  with assms show ?thesis by (simp add: calculateColumn_def Let_def)
next
  case (Some h)
  let ?n = "default_to (columnCount_column p) 1"
  let ?w = "default_to (wastage_column p) DEFAULT_WASTAGE"
  from assms Some have h: "0 < h" "1 \<le> ?n"
    by (auto simp: calculateColumn_def Let_def split: if_splits)
  show ?thesis
  proof (cases "default_to (shape_column p) ''round'' = ''round''")
    case True
    let ?d = "default_to (diameter_column p) 0"
    from assms Some True h have d: "0 < ?d"
      by (auto simp: calculateColumn_def Let_def split: if_splits)
    with assms Some True h have "column_totals (PI * (?d / 2)\<^sup>2 * h) ?n ?w = Valid r"
      by (simp add: calculateColumn_def Let_def)
    moreover from d h have "0 < PI * (?d / 2)\<^sup>2 * h"
      by (simp add: PI_def)
    ultimately show ?thesis using h(2) by (rule column_totals_D)
  next
    case False
    let ?wd = "default_to (width_column p) 0"
    let ?cd = "if 0 < default_to (depth_column p) 0 then default_to (depth_column p) 0 else ?wd"
    from assms Some False h have w: "0 < ?wd"
      by (auto simp: calculateColumn_def Let_def split: if_splits)
    with assms Some False h have "column_totals (?wd * ?cd * h) ?n ?w = Valid r"
      by (simp add: calculateColumn_def Let_def split: if_splits)
    moreover from w h have "0 < ?wd * ?cd * h"
      by simp
    ultimately show ?thesis using h(2) by (rule column_totals_D)
  qed
qed

lemma column_valid_wastage:
  "valid (calculateColumn (p\<lparr>wastage_column := w\<rparr>)) = valid (calculateColumn p)"
  by (simp add: calculateColumn_def column_totals_def Let_def split: option.splits)

lemma circular_Valid_D:
  assumes "calculateCircularSlab p = Valid r"
  shows "0 < baseVolume r
     \<and> totalVolume r = applyWastage (baseVolume r) (default_to (wastage_circular p) DEFAULT_WASTAGE)"
  using assms
  by (auto simp: calculateCircularSlab_def Let_def PI_def split: option.splits if_splits)

lemma circular_valid_wastage:
  "valid (calculateCircularSlab (p\<lparr>wastage_circular := w\<rparr>)) = valid (calculateCircularSlab p)"
  by (simp add: calculateCircularSlab_def Let_def split: option.splits)

lemma slab_negative_wastage:
  assumes "calculateRectangularSlab slab = Valid rs" and "wastage_slab slab = Some x" and "x < 0"
  shows "totalVolume rs < baseVolume rs \<and> (x \<le> - 100 \<longrightarrow> totalVolume rs \<le> 0)"
  using slab_Valid_D [OF assms(1)] assms(2) applyWastage_negative [of "baseVolume rs" x] assms(3)
  by (simp add: default_to_def)

lemma post_hole_negative_wastage:
  assumes "calculatePostHole hole = Valid rh" and "wastage_post hole = Some x" and "x < 0"
    and "postVolume rh < holeVolume rh"
  shows "totalVolume rh < baseVolume rh \<and> (x \<le> - 100 \<longrightarrow> totalVolume rh \<le> 0)"
proof -
  from post_hole_Valid_D [OF assms(1)] assms(2)
  have b: "baseVolume rh = (holeVolume rh - postVolume rh) * default_to (postCount_post hole) 1"
    "1 \<le> default_to (postCount_post hole) 1"
    "totalVolume rh = applyWastage (baseVolume rh) x"
    by (simp_all add: default_to_def)
  from assms(4) b(2) have "0 < (holeVolume rh - postVolume rh) * default_to (postCount_post hole) 1"
    by (intro mult_pos_pos) simp_all
  with b(1) have "0 < baseVolume rh" by simp
  from applyWastage_negative [OF this assms(3)] b(3) show ?thesis by simp
qed

lemma footing_negative_wastage:
  assumes "calculateFooting footing = Valid rf" and "wastage_footing footing = Some x" and "x < 0"
  shows "totalVolume rf < baseVolume rf \<and> (x \<le> - 100 \<longrightarrow> totalVolume rf \<le> 0)"
  using footing_Valid_D [OF assms(1)] assms(2) applyWastage_negative [of "baseVolume rf" x] assms(3)
  by (simp add: default_to_def)

lemma column_negative_wastage:
  assumes "calculateColumn column = Valid rc" and "wastage_column column = Some x" and "x < 0"
  shows "totalVolume rc < baseVolume rc \<and> (x \<le> - 100 \<longrightarrow> totalVolume rc \<le> 0)"
  using column_Valid_D [OF assms(1)] assms(2) applyWastage_negative [of "baseVolume rc" x] assms(3)
  by (simp add: default_to_def)

lemma circular_negative_wastage:
  assumes "calculateCircularSlab disc = Valid rd" and "wastage_circular disc = Some x" and "x < 0"
  shows "totalVolume rd < baseVolume rd \<and> (x \<le> - 100 \<longrightarrow> totalVolume rd \<le> 0)"
  using circular_Valid_D [OF assms(1)] assms(2) applyWastage_negative [of "baseVolume rd" x] assms(3)
  by (simp add: default_to_def)

text \<open>
  C9 (as amended). No calculator validates the wastage percent: whether the result is
  Valid does not depend on it, so a negative wastage is accepted. For a Valid result and
  a wastage \<open>x < 0\<close> the total volume is strictly below the base volume, and not
  positive once \<open>x \<le> -100\<close>; for the slab, footing, column and circular slab always, for
  the post hole when the post volume is below the hole volume.
\<close>

theorem negative_wastage_accepted:
  "valid (calculateRectangularSlab (slab\<lparr>wastage_slab := w\<rparr>)) = valid (calculateRectangularSlab slab)
   \<and> valid (calculatePostHole (hole\<lparr>wastage_post := w\<rparr>)) = valid (calculatePostHole hole)
   \<and> valid (calculateFooting (footing\<lparr>wastage_footing := w\<rparr>)) = valid (calculateFooting footing)
   \<and> valid (calculateColumn (column\<lparr>wastage_column := w\<rparr>)) = valid (calculateColumn column)
   \<and> valid (calculateCircularSlab (disc\<lparr>wastage_circular := w\<rparr>)) = valid (calculateCircularSlab disc)
   \<and> (calculateRectangularSlab slab = Valid rs \<and> wastage_slab slab = Some x \<and> x < 0
        \<longrightarrow> totalVolume rs < baseVolume rs \<and> (x \<le> - 100 \<longrightarrow> totalVolume rs \<le> 0))
   \<and> (calculatePostHole hole = Valid rh \<and> wastage_post hole = Some x \<and> x < 0
          \<and> postVolume rh < holeVolume rh
        \<longrightarrow> totalVolume rh < baseVolume rh \<and> (x \<le> - 100 \<longrightarrow> totalVolume rh \<le> 0))
   \<and> (calculateFooting footing = Valid rf \<and> wastage_footing footing = Some x \<and> x < 0
        \<longrightarrow> totalVolume rf < baseVolume rf \<and> (x \<le> - 100 \<longrightarrow> totalVolume rf \<le> 0))
   \<and> (calculateColumn column = Valid rc \<and> wastage_column column = Some x \<and> x < 0
        \<longrightarrow> totalVolume rc < baseVolume rc \<and> (x \<le> - 100 \<longrightarrow> totalVolume rc \<le> 0))
   \<and> (calculateCircularSlab disc = Valid rd \<and> wastage_circular disc = Some x \<and> x < 0
        \<longrightarrow> totalVolume rd < baseVolume rd \<and> (x \<le> - 100 \<longrightarrow> totalVolume rd \<le> 0))"
  using slab_valid_wastage [of w slab] post_hole_valid_wastage [of w hole]
    footing_valid_wastage [of w footing] column_valid_wastage [of w column]
    circular_valid_wastage [of w disc]
    slab_negative_wastage [of slab rs x] post_hole_negative_wastage [of hole rh x]
    footing_negative_wastage [of footing rf x] column_negative_wastage [of column rc x]
    circular_negative_wastage [of disc rd x]
  by blast

theorem negative_wastage_accepted_witness:
  "valid (calculateRectangularSlab
     \<lparr>length_slab = Some 3, width_slab = Some 4, depth_slab = Some 0.1,
      wastage_slab = Some (- 150)\<rparr>)
   \<and> totalVolume (results (calculateRectangularSlab
     \<lparr>length_slab = Some 3, width_slab = Some 4, depth_slab = Some 0.1,
      wastage_slab = Some (- 150)\<rparr>))
     < baseVolume (results (calculateRectangularSlab
     \<lparr>length_slab = Some 3, width_slab = Some 4, depth_slab = Some 0.1,
      wastage_slab = Some (- 150)\<rparr>))
   \<and> totalVolume (results (calculateRectangularSlab
     \<lparr>length_slab = Some 3, width_slab = Some 4, depth_slab = Some 0.1,
      wastage_slab = Some (- 150)\<rparr>)) \<le> 0
   \<and> totalVolume (results (calculatePostHole
     \<lparr>holeDiameter_post = Some 0.3, holeDepth_post = Some 0.6, postWidth_post = None,
      postCount_post = Some 4, postShape_post = None, wastage_post = Some (- 150)\<rparr>))
     < baseVolume (results (calculatePostHole
     \<lparr>holeDiameter_post = Some 0.3, holeDepth_post = Some 0.6, postWidth_post = None,
      postCount_post = Some 4, postShape_post = None, wastage_post = Some (- 150)\<rparr>))
   \<and> totalVolume (results (calculateFooting
     \<lparr>length_footing = Some 2, width_footing = Some 0.4, depth_footing = Some 0.3,
      footingCount_footing = None, wastage_footing = Some (- 150)\<rparr>))
     < baseVolume (results (calculateFooting
     \<lparr>length_footing = Some 2, width_footing = Some 0.4, depth_footing = Some 0.3,
      footingCount_footing = None, wastage_footing = Some (- 150)\<rparr>))
   \<and> totalVolume (results (calculateColumn
     \<lparr>shape_column = Some ''square'', diameter_column = None, width_column = Some 0.3,
      depth_column = None, height_column = Some 2.4, columnCount_column = Some 2,
      wastage_column = Some (- 150)\<rparr>))
     < baseVolume (results (calculateColumn
     \<lparr>shape_column = Some ''square'', diameter_column = None, width_column = Some 0.3,
      depth_column = None, height_column = Some 2.4, columnCount_column = Some 2,
      wastage_column = Some (- 150)\<rparr>))
   \<and> totalVolume (results (calculateCircularSlab
     \<lparr>diameter_circular = Some 1.2, thickness_circular = Some 0.1,
      wastage_circular = Some (- 150)\<rparr>))
     < baseVolume (results (calculateCircularSlab
     \<lparr>diameter_circular = Some 1.2, thickness_circular = Some 0.1,
      wastage_circular = Some (- 150)\<rparr>))"
proof -
  let ?s = "\<lparr>length_slab = Some 3, width_slab = Some 4, depth_slab = Some 0.1,
      wastage_slab = Some (- 150)\<rparr>"
  let ?h = "\<lparr>holeDiameter_post = Some 0.3, holeDepth_post = Some 0.6, postWidth_post = None,
      postCount_post = Some 4, postShape_post = None, wastage_post = Some (- 150)\<rparr>"
  let ?f = "\<lparr>length_footing = Some 2, width_footing = Some 0.4, depth_footing = Some 0.3,
      footingCount_footing = None, wastage_footing = Some (- 150)\<rparr>"
  let ?c = "\<lparr>shape_column = Some ''square'', diameter_column = None, width_column = Some 0.3,
      depth_column = None, height_column = Some 2.4, columnCount_column = Some 2,
      wastage_column = Some (- 150)\<rparr>"
  let ?d = "\<lparr>diameter_circular = Some 1.2, thickness_circular = Some 0.1,
      wastage_circular = Some (- 150)\<rparr>"
  have vs: "valid (calculateRectangularSlab ?s)"
    by (simp add: calculateRectangularSlab_def Let_def)
  have vh: "valid (calculatePostHole ?h)"
    by (simp add: calculatePostHole_def Let_def default_to_def)
  have vf: "valid (calculateFooting ?f)"
    by (simp add: calculateFooting_def Let_def default_to_def)
  have vc: "valid (calculateColumn ?c)"
    by (simp add: calculateColumn_def column_totals_def Let_def default_to_def)
  have vd: "valid (calculateCircularSlab ?d)"
    by (simp add: calculateCircularSlab_def Let_def)
  have lt: "postVolume (results (calculatePostHole ?h)) < holeVolume (results (calculatePostHole ?h))"
    by (simp add: calculatePostHole_def Let_def default_to_def PI_def)
  from vs vh vf vc vd
  have eqs: "calculateRectangularSlab ?s = Valid (results (calculateRectangularSlab ?s))"
    "calculatePostHole ?h = Valid (results (calculatePostHole ?h))"
    "calculateFooting ?f = Valid (results (calculateFooting ?f))"
    "calculateColumn ?c = Valid (results (calculateColumn ?c))"
    "calculateCircularSlab ?d = Valid (results (calculateCircularSlab ?d))"
    by simp_all
  have x: "(- 150 :: real) < 0" "(- 150 :: real) \<le> - 100"
    by simp_all
  from negative_wastage_accepted
    [where slab = ?s and hole = ?h and footing = ?f and column = ?c and disc = ?d
       and x = "- 150"
       and rs = "results (calculateRectangularSlab ?s)"
       and rh = "results (calculatePostHole ?h)"
       and rf = "results (calculateFooting ?f)"
       and rc = "results (calculateColumn ?c)"
       and rd = "results (calculateCircularSlab ?d)"]
    eqs lt x vs
  show ?thesis
    by simp
qed

text \<open>
  C9 as stated fails for a post hole whose post volume exceeds the hole volume: the base
  volume is negative, and with a wastage of \<open>-50\<close> the total volume is above it.
\<close>

theorem negative_wastage_accepted_counterexample:
  "valid (calculatePostHole
      \<lparr>holeDiameter_post = Some 0.2, holeDepth_post = Some 0.6, postWidth_post = Some 0.2,
       postCount_post = Some 1, postShape_post = Some ''square'', wastage_post = Some (- 50)\<rparr>)
   \<and> (- 50 :: real) < 0
   \<and> baseVolume (results (calculatePostHole
      \<lparr>holeDiameter_post = Some 0.2, holeDepth_post = Some 0.6, postWidth_post = Some 0.2,
       postCount_post = Some 1, postShape_post = Some ''square'', wastage_post = Some (- 50)\<rparr>))
     < totalVolume (results (calculatePostHole
      \<lparr>holeDiameter_post = Some 0.2, holeDepth_post = Some 0.6, postWidth_post = Some 0.2,
       postCount_post = Some 1, postShape_post = Some ''square'', wastage_post = Some (- 50)\<rparr>))"
  using pi_less_4
  by (simp add: calculatePostHole_def Let_def default_to_def PI_def power2_eq_square
      applyWastage_def)

end
